theory Spec2Isabelle
  imports Complex_Main "HOL-Library.AList"
begin

section \<open>Rows of the hosted database (lib/supabase.ts and the component interfaces)\<close>

text \<open>
  A \<open>timestamptz\<close> column is an instant; the client receives it as an ISO string and only
  ever hands it back to the database (for ordering) or to \<open>new Date\<close>. It is modelled by
  the instant itself, an integer.
\<close>

type_synonym timestamp = int

record user =
  u_id :: string
  u_email :: string
  u_role :: string

record device =
  dev_id :: string
  dev_device_id :: string
  dev_phone_number :: string
  dev_device_type :: string
  dev_is_online :: bool
  dev_battery_level :: real
  dev_last_seen :: timestamp
  dev_client_id :: "string option"

record location_data =
  loc_id :: int
  loc_device_id :: string
  loc_latitude :: real
  loc_longitude :: real
  loc_accuracy :: real
  loc_timestamp :: timestamp
  loc_battery_level :: real
  loc_device_type :: string

record geofence =
  gf_id :: string
  gf_name :: string
  gf_type :: string
  gf_latitude :: real
  gf_longitude :: real
  gf_radius :: real
  gf_is_active :: bool

record alert =
  al_id :: string
  al_device_id :: string
  al_geofence_id :: string
  al_type :: string
  al_message :: string
  al_is_read :: bool
  al_created_at :: timestamp

section \<open>The query client\<close>

text \<open>
  Every awaited query resolves to an object \<open>{ data, error }\<close>. The backend is the
  tables the components read and write, and for each table whether requests to it
  currently fail (then \<open>data\<close> is null and \<open>error\<close> is set).
\<close>

datatype tbl = Users | Devices | LocationData | Geofences | Alerts

datatype 'a reply = Reply (data: "'a option") (error: "string option")

record backend =
  devices_tbl :: "device list"
  location_tbl :: "location_data list"
  geofences_tbl :: "geofence list"
  alerts_tbl :: "alert list"
  down :: "tbl \<Rightarrow> bool"

definition request :: "backend \<Rightarrow> tbl \<Rightarrow> 'a \<Rightarrow> 'a reply" where
  "request b t rows =
     (if down b t then Reply None (Some ''request failed'') else Reply (Some rows) None)"

text \<open>\<open>data || []\<close>\<close>

definition or_empty :: "'a list option \<Rightarrow> 'a list" where
  "or_empty d = (case d of None \<Rightarrow> [] | Some rows \<Rightarrow> rows)"

section \<open>MapView\<close>

record position =
  lat :: real
  lng :: real

record circle =
  c_strokeColor :: string
  c_fillColor :: string
  c_center :: position
  c_radius :: real

text \<open>The interpolated values of a marker's info window.\<close>

record info_window =
  iw_device_id :: string
  iw_is_online :: bool
  iw_battery :: real
  iw_device_type :: string
  iw_last_update :: timestamp
  iw_accuracy :: real

record marker =
  mk_position :: position
  mk_title :: string
  mk_fillColor :: string
  mk_info :: info_window

text \<open>
  The component's state: \<open>mapInstanceRef.current\<close> is null or a map, of which only the
  centre is ever set; \<open>markersRef\<close> and \<open>geofenceCirclesRef\<close> are JS Maps, kept as
  association lists in insertion order (\<open>AList.update\<close> is \<open>Map.set\<close>, \<open>map_of\<close> is
  \<open>Map.get\<close>); \<open>toasts\<close> collects the calls of \<open>toast.error\<close>.
\<close>

record map_view =
  mapInstance :: "position option"
  devices :: "device list"
  geofences :: "geofence list"
  markers :: "(string \<times> marker) list"
  geofenceCircles :: "(string \<times> circle) list"
  toasts :: "string list"

definition lower_char :: "char \<Rightarrow> char" where
  "lower_char c =
     (let n = (of_char c :: nat) in if 65 \<le> n \<and> n \<le> 90 then char_of (n + 32) else c)"

definition toLowerCase :: "string \<Rightarrow> string" where
  "toLowerCase s = map lower_char s"

definition getGeofenceColor :: "string \<Rightarrow> string" where
  "getGeofenceColor type =
     (let t = toLowerCase type in
      if t = ''garage'' then ''#3B82F6''
      else if t = ''hot_zone'' then ''#EF4444''
      else if t = ''safe_zone'' then ''#10B981''
      else ''#8B5CF6'')"

text \<open>The body of the \<open>forEach\<close> in \<open>loadGeofences\<close>: a circle only when the map exists.\<close>

definition addCircle ::
  "position option \<Rightarrow> geofence \<Rightarrow> (string \<times> circle) list \<Rightarrow> (string \<times> circle) list" where
  "addCircle m g cs =
     (case m of
        None \<Rightarrow> cs
      | Some _ \<Rightarrow>
          AList.update (gf_id g)
            \<lparr>c_strokeColor = getGeofenceColor (gf_type g),
             c_fillColor = getGeofenceColor (gf_type g),
             c_center = \<lparr>lat = gf_latitude g, lng = gf_longitude g\<rparr>,
             c_radius = gf_radius g\<rparr> cs)"

definition loadGeofences :: "backend \<Rightarrow> map_view \<Rightarrow> map_view" where
  "loadGeofences b st =
     (case request b Geofences (filter gf_is_active (geofences_tbl b)) of
        Reply geofencesData err \<Rightarrow>
          (case err of
             Some e \<Rightarrow> st\<lparr>toasts := toasts st @ [''Failed to load geofences'']\<rparr>
           | None \<Rightarrow>
               st\<lparr>geofences := or_empty geofencesData,
                  geofenceCircles := fold (addCircle (mapInstance st)) (or_empty geofencesData) []\<rparr>))"

text \<open>
  \<open>updateDeviceLocation\<close> reads \<open>devices\<close> as the closure it was created in sees it (the
  \<open>devices\<close> of the state passed here), the refs \<open>mapInstanceRef\<close> and \<open>markersRef\<close> as
  they are now. \<open>Map.size\<close> is the number of keys.
\<close>

definition map_size :: "(string \<times> 'a) list \<Rightarrow> nat" where
  "map_size ms = length (remdups (map fst ms))"

definition ping_position :: "location_data \<Rightarrow> position" where
  "ping_position locationData = \<lparr>lat = loc_latitude locationData, lng = loc_longitude locationData\<rparr>"

text \<open>\<open>new google.maps.Marker({...})\<close> with its info window.\<close>

definition make_marker :: "device \<Rightarrow> location_data \<Rightarrow> marker" where
  "make_marker device locationData =
     \<lparr>mk_position = ping_position locationData,
      mk_title = dev_device_id device,
      mk_fillColor = (if dev_is_online device then ''#10B981'' else ''#EF4444''),
      mk_info =
        \<lparr>iw_device_id = dev_device_id device,
         iw_is_online = dev_is_online device,
         iw_battery = loc_battery_level locationData,
         iw_device_type = dev_device_type device,
         iw_last_update = loc_timestamp locationData,
         iw_accuracy = loc_accuracy locationData\<rparr>\<rparr>"

definition updateDeviceLocation :: "location_data \<Rightarrow> map_view \<Rightarrow> map_view" where
  "updateDeviceLocation locationData st =
     (case mapInstance st of
        None \<Rightarrow> st
      | Some centre \<Rightarrow>
          (case find (\<lambda>d. dev_device_id d = loc_device_id locationData) (devices st) of
             None \<Rightarrow> st
           | Some device \<Rightarrow>
               (let ms = AList.update (dev_device_id device) (make_marker device locationData)
                           (markers st)
                in st\<lparr>markers := ms,
                      mapInstance :=
                        Some (if map_size ms = 1 then ping_position locationData else centre)\<rparr>)))"

text \<open>
  \<open>.eq('device_id', id).order('timestamp', { ascending: false }).limit(1)\<close>; rows with
  equal timestamps come in an order the database chooses, here the reverse of the stable
  ascending sort.
\<close>

definition latest_location :: "backend \<Rightarrow> string \<Rightarrow> location_data list reply" where
  "latest_location b device_id =
     request b LocationData
       (take 1 (rev (sort_key loc_timestamp
          (filter (\<lambda>l. loc_device_id l = device_id) (location_tbl b)))))"

text \<open>The query \<open>loadDevicesAndLocations\<close> builds: all devices, narrowed by
  \<open>.eq('client_id', user.id)\<close> for a client.\<close>

definition devicesQuery :: "user option \<Rightarrow> backend \<Rightarrow> device list" where
  "devicesQuery usr b =
     (case usr of
        None \<Rightarrow> devices_tbl b
      | Some u \<Rightarrow>
          if u_role u = ''client''
          then filter (\<lambda>d. dev_client_id d = Some (u_id u)) (devices_tbl b)
          else devices_tbl b)"

definition load_location :: "backend \<Rightarrow> device \<Rightarrow> map_view \<Rightarrow> map_view" where
  "load_location b device st =
     (case data (latest_location b (dev_device_id device)) of
        None \<Rightarrow> st
      | Some locationData \<Rightarrow>
          (case locationData of [] \<Rightarrow> st | l # _ \<Rightarrow> updateDeviceLocation l st))"

text \<open>
  \<open>setDevices\<close> takes effect with the next render: the calls of \<open>updateDeviceLocation\<close> in
  the loop still see the \<open>devices\<close> of the state the function started in.
\<close>

definition loadDevicesAndLocations :: "user option \<Rightarrow> backend \<Rightarrow> map_view \<Rightarrow> map_view" where
  "loadDevicesAndLocations usr b st =
     (case request b Devices (devicesQuery usr b) of
        Reply devicesData devicesError \<Rightarrow>
          (case devicesError of
             Some e \<Rightarrow> st\<lparr>toasts := toasts st @ [''Failed to load devices'']\<rparr>
           | None \<Rightarrow>
               (fold (load_location b) (or_empty devicesData) st)
                 \<lparr>devices := or_empty devicesData\<rparr>))"

text \<open>
  The first render: the initial values of the state variables (\<open>devices\<close> and \<open>geofences\<close>
  empty) and the refs as \<open>useRef\<close> creates them (no map, no marker, no circle).
\<close>

definition empty_view :: map_view where
  "empty_view = \<lparr>mapInstance = None, devices = [], geofences = [], markers = [],
     geofenceCircles = [], toasts = []\<rparr>"

text \<open>
  The handler of the \<open>location_updates\<close> channel passes every inserted row on. The effect
  that registers it has no dependencies: it runs once, after the first render, and the
  \<open>updateDeviceLocation\<close> it calls is the function of that render. This function sees the
  \<open>devices\<close> of the first render, whatever \<open>setDevices\<close> has stored since; the refs it reads
  are the current ones.
\<close>

definition on_location_insert :: "location_data \<Rightarrow> map_view \<Rightarrow> map_view" where
  "on_location_insert payload_new st =
     (updateDeviceLocation payload_new (st\<lparr>devices := devices empty_view\<rparr>))
       \<lparr>devices := devices st\<rparr>"

text \<open>
  The mounted component: the view with the two state variables that decide what is
  rendered. While \<open>isLoading\<close> the spinner is returned, with \<open>mapError\<close> the error panel,
  and only otherwise the view with the \<open>div\<close> that \<open>mapRef\<close> points to: \<open>mapRef.current\<close> is
  that element when it is rendered and null when it is not.
\<close>

record map_component =
  view :: map_view
  mv_isLoading :: bool
  mapError :: "string option"

definition mapRef_current :: "map_component \<Rightarrow> bool" where
  "mapRef_current c = (\<not> mv_isLoading c \<and> mapError c = None)"

definition first_render :: map_component where
  "first_render = \<lparr>view = empty_view, mv_isLoading = True, mapError = None\<rparr>"

text \<open>
  What \<open>initializeMap\<close> depends on besides the component: the API key of the build, the
  error of \<open>loader.load()\<close> if it rejects, the signed-in user and the backend.
\<close>

record map_env =
  apiKey :: "string option"
  loader_error :: "string option"
  env_user :: "user option"
  env_backend :: backend

definition initializeMap :: "map_env \<Rightarrow> map_component \<Rightarrow> map_component" where
  "initializeMap env c =
     (if \<not> mapRef_current c then c
      else
        (case apiKey env of
           None \<Rightarrow>
             c\<lparr>mv_isLoading := False,
               mapError := Some (''Google Maps API key is not configured. ''
                 @ ''Please add VITE_GOOGLE_MAPS_API_KEY to your .env file.'')\<rparr>
         | Some key \<Rightarrow>
             (case loader_error env of
                Some message \<Rightarrow>
                  c\<lparr>mv_isLoading := False, mapError := Some (''Failed to load map: '' @ message)\<rparr>
              | None \<Rightarrow>
                  c\<lparr>view :=
                      loadGeofences (env_backend env)
                        (loadDevicesAndLocations (env_user env) (env_backend env)
                           ((view c)\<lparr>mapInstance := Some \<lparr>lat = 40.7128, lng = -74.0060\<rparr>\<rparr>)),
                    mv_isLoading := False\<rparr>)))"

text \<open>
  What happens to a mounted component: it is mounted anew (the first render again, then
  the effect, which calls \<open>initializeMap\<close> and subscribes), or the channel delivers an
  inserted row. \<open>run\<close> mounts the component and lets the events happen in order.
\<close>

datatype event = Remount | LocationInsert location_data

fun step :: "map_env \<Rightarrow> map_component \<Rightarrow> event \<Rightarrow> map_component" where
  "step env c Remount = initializeMap env first_render"
| "step env c (LocationInsert payload_new) =
     c\<lparr>view := on_location_insert payload_new (view c)\<rparr>"

definition run :: "map_env \<Rightarrow> event list \<Rightarrow> map_component" where
  "run env events = foldl (step env) (initializeMap env first_render) events"

section \<open>ClientDashboard\<close>

definition loadDevices :: "user option \<Rightarrow> backend \<Rightarrow> device list \<Rightarrow> device list" where
  "loadDevices usr b devs =
     (case usr of
        None \<Rightarrow> devs
      | Some u \<Rightarrow>
          (case request b Devices (filter (\<lambda>d. dev_client_id d = Some (u_id u)) (devices_tbl b)) of
             Reply dat err \<Rightarrow>
               (case err of Some e \<Rightarrow> devs | None \<Rightarrow> or_empty dat)))"

section \<open>AlertsPanel\<close>

record alert_with_details = alert +
  geofence_name :: "string option"
  device_name :: "string option"

record alerts_panel =
  alerts :: "alert_with_details list"
  isLoading :: bool
  panel_toasts :: "string list"

text \<open>\<open>.single()\<close>: the one row, or an error when there is none or more than one.\<close>

definition single :: "backend \<Rightarrow> tbl \<Rightarrow> 'a list \<Rightarrow> 'a reply" where
  "single b t rows =
     (if down b t then Reply None (Some ''request failed'')
      else (case rows of [r] \<Rightarrow> Reply (Some r) None | _ \<Rightarrow> Reply None (Some ''PGRST116'')))"

text \<open>\<open>data?.field || fallback\<close> on strings: the empty string is falsy.\<close>

definition or_else :: "string option \<Rightarrow> string \<Rightarrow> string" where
  "or_else v fallback = (case v of None \<Rightarrow> fallback | Some s \<Rightarrow> if s = [] then fallback else s)"

definition enrich :: "backend \<Rightarrow> alert \<Rightarrow> alert_with_details" where
  "enrich b a =
     (let geofenceResult =
            single b Geofences
              (map gf_name (filter (\<lambda>g. gf_id g = al_geofence_id a) (geofences_tbl b)));
          deviceResult =
            single b Devices
              (map dev_device_id (filter (\<lambda>d. dev_device_id d = al_device_id a) (devices_tbl b)))
      in alert.extend a
           (alert_with_details.fields
              (Some (or_else (data geofenceResult) ''Unknown Geofence''))
              (Some (or_else (data deviceResult) (al_device_id a)))))"

text \<open>\<open>.from('devices').select('device_id').eq('client_id', user.id)\<close>, mapped to the ids.\<close>

definition userDevices :: "backend \<Rightarrow> user \<Rightarrow> string list option" where
  "userDevices b u =
     data (request b Devices
       (map dev_device_id (filter (\<lambda>d. dev_client_id d = Some (u_id u)) (devices_tbl b))))"

definition order_created_desc :: "alert list \<Rightarrow> alert list" where
  "order_created_desc rows = rev (sort_key al_created_at rows)"

definition fetch_alerts :: "backend \<Rightarrow> (alert \<Rightarrow> bool) \<Rightarrow> alerts_panel \<Rightarrow> alerts_panel" where
  "fetch_alerts b keep st =
     (case request b Alerts (order_created_desc (filter keep (alerts_tbl b))) of
        Reply alertsData err \<Rightarrow>
          (case err of
             Some e \<Rightarrow>
               st\<lparr>isLoading := False, panel_toasts := panel_toasts st @ [''Failed to load alerts'']\<rparr>
           | None \<Rightarrow> st\<lparr>alerts := map (enrich b) (or_empty alertsData), isLoading := False\<rparr>))"

definition loadAlerts :: "user option \<Rightarrow> backend \<Rightarrow> alerts_panel \<Rightarrow> alerts_panel" where
  "loadAlerts usr b st =
     (case usr of
        None \<Rightarrow> fetch_alerts b (\<lambda>a. True) st
      | Some u \<Rightarrow>
          if u_role u = ''client'' then
            (case userDevices b u of
               None \<Rightarrow> st\<lparr>alerts := [], isLoading := False\<rparr>
             | Some deviceIds \<Rightarrow>
                 if length deviceIds > 0
                 then fetch_alerts b (\<lambda>a. al_device_id a \<in> set deviceIds) st
                 else st\<lparr>alerts := [], isLoading := False\<rparr>)
          else fetch_alerts b (\<lambda>a. True) st)"

text \<open>
  The handler of the \<open>alerts_updates\<close> channel, registered for every INSERT on the table:
  a toast with the new row's message, then a reload.
\<close>

definition on_alert_insert ::
  "user option \<Rightarrow> backend \<Rightarrow> alert \<Rightarrow> alerts_panel \<Rightarrow> alerts_panel" where
  "on_alert_insert usr b newAlert st =
     loadAlerts usr b (st\<lparr>panel_toasts := panel_toasts st @ [''New Alert: '' @ al_message newAlert]\<rparr>)"

text \<open>
  \<open>.from('alerts').update({ is_read: true })\<close> with its filters: the rows that match get
  the flag, the others stay; a failed request changes nothing.
\<close>

definition update_is_read :: "backend \<Rightarrow> (alert \<Rightarrow> bool) \<Rightarrow> backend \<times> string option" where
  "update_is_read b matches =
     (if down b Alerts then (b, Some ''request failed'')
      else (b\<lparr>alerts_tbl := map (\<lambda>a. if matches a then a\<lparr>al_is_read := True\<rparr> else a) (alerts_tbl b)\<rparr>,
            None))"

definition markAsRead :: "string \<Rightarrow> backend \<times> alerts_panel \<Rightarrow> backend \<times> alerts_panel" where
  "markAsRead alertId bs =
     (case bs of (b, st) \<Rightarrow>
        (case update_is_read b (\<lambda>a. al_id a = alertId) of
           (b', err) \<Rightarrow>
             (case err of
                Some e \<Rightarrow> (b', st\<lparr>panel_toasts := panel_toasts st @ [''Failed to update alert'']\<rparr>)
              | None \<Rightarrow>
                  (b', st\<lparr>alerts := map (\<lambda>alert. if al_id alert = alertId
                                                   then alert\<lparr>al_is_read := True\<rparr> else alert)
                                        (alerts st)\<rparr>))))"

text \<open>The filter \<open>markAllAsRead\<close> builds: unread rows, narrowed by \<open>.in('device_id', ids)\<close>
  only for a client whose device query returned at least one row.\<close>

definition mark_all_filter :: "user option \<Rightarrow> backend \<Rightarrow> alert \<Rightarrow> bool" where
  "mark_all_filter usr b =
     (case usr of
        None \<Rightarrow> (\<lambda>a. al_is_read a = False)
      | Some u \<Rightarrow>
          if u_role u = ''client'' then
            (case userDevices b u of
               None \<Rightarrow> (\<lambda>a. al_is_read a = False)
             | Some deviceIds \<Rightarrow>
                 if length deviceIds > 0
                 then (\<lambda>a. al_is_read a = False \<and> al_device_id a \<in> set deviceIds)
                 else (\<lambda>a. al_is_read a = False))
          else (\<lambda>a. al_is_read a = False))"

definition markAllAsRead :: "user option \<Rightarrow> backend \<times> alerts_panel \<Rightarrow> backend \<times> alerts_panel" where
  "markAllAsRead usr bs =
     (case bs of (b, st) \<Rightarrow>
        (case update_is_read b (mark_all_filter usr b) of
           (b', err) \<Rightarrow>
             (case err of
                Some e \<Rightarrow> (b', st\<lparr>panel_toasts := panel_toasts st @ [''Failed to update alerts'']\<rparr>)
              | None \<Rightarrow>
                  (b', st\<lparr>alerts := map (\<lambda>alert. alert\<lparr>al_is_read := True\<rparr>) (alerts st),
                         panel_toasts := panel_toasts st @ [''All alerts marked as read'']\<rparr>))))"

section \<open>AuthProvider.signIn\<close>

text \<open>
  An awaited call either rejects (the \<open>await\<close> throws) or resolves to its reply. The auth
  service and the \<open>users\<close> table are the environment of \<open>signIn\<close>: what each of its three
  calls answers.
\<close>

datatype 'a awaited = Rejects | Resolves 'a

record auth_user =
  au_id :: string
  au_email :: string

text \<open>\<open>{ data: authData, error: authError }\<close>, with \<open>authData.user\<close> null or a user.\<close>

record auth_reply =
  authData_user :: "auth_user option"
  authError :: "string option"

record new_user =
  nu_id :: string
  nu_email :: string
  nu_role :: string

record auth_env =
  signInWithPassword :: "string \<Rightarrow> string \<Rightarrow> auth_reply awaited"
  select_user :: "string \<Rightarrow> user reply awaited"
  insert_user :: "new_user \<Rightarrow> user reply awaited"

text \<open>The value of type \<open>{ error?: string }\<close> the promise resolves to; \<open>{}\<close> has no error.\<close>

record sign_in_result =
  result_error :: "string option"

datatype 'a outcome = Throws | Returns 'a

text \<open>
  The body of the \<open>try\<close>: \<open>Inl ()\<close> is an exception on its way to the \<open>catch\<close>, \<open>Inr\<close> the
  value returned together with the \<open>user\<close> state after the calls of \<open>setUser\<close>.
\<close>

definition signIn_try ::
  "auth_env \<Rightarrow> string \<Rightarrow> string \<Rightarrow> user option \<Rightarrow> unit + (sign_in_result \<times> user option)" where
  "signIn_try env email password usr =
     (case signInWithPassword env email password of
        Rejects \<Rightarrow> Inl ()
      | Resolves auth \<Rightarrow>
          (case authError auth of
             Some e \<Rightarrow> Inr (\<lparr>result_error = Some ''Invalid credentials''\<rparr>, usr)
           | None \<Rightarrow>
               (case authData_user auth of
                  None \<Rightarrow> Inr (\<lparr>result_error = Some ''Authentication failed''\<rparr>, usr)
                | Some au \<Rightarrow>
                    (case select_user env (au_id au) of
                       Rejects \<Rightarrow> Inl ()
                     | Resolves (Reply userData userError) \<Rightarrow>
                         if userError \<noteq> None \<or> userData = None then
                           (case insert_user env
                                   \<lparr>nu_id = au_id au, nu_email = au_email au, nu_role = ''viewer''\<rparr> of
                              Rejects \<Rightarrow> Inl ()
                            | Resolves (Reply newUserData insertError) \<Rightarrow>
                                if insertError \<noteq> None \<or> newUserData = None
                                then Inr (\<lparr>result_error = Some ''Failed to create user profile''\<rparr>, usr)
                                else Inr (\<lparr>result_error = None\<rparr>, newUserData))
                         else Inr (\<lparr>result_error = None\<rparr>, userData)))))"

definition signIn ::
  "auth_env \<Rightarrow> string \<Rightarrow> string \<Rightarrow> user option \<Rightarrow> sign_in_result outcome \<times> user option" where
  "signIn env email password usr =
     (case signIn_try env email password usr of
        Inl _ \<Rightarrow> (Returns \<lparr>result_error = Some ''An error occurred during sign in''\<rparr>, usr)
      | Inr (r, usr') \<Rightarrow> (Returns r, usr'))"

text \<open>The claim's words for \<open>signIn\<close>: who is authenticated, and the profile row that is
  fetched or, failing that, created.\<close>

definition authenticated :: "auth_env \<Rightarrow> string \<Rightarrow> string \<Rightarrow> auth_user option" where
  "authenticated env email password =
     (case signInWithPassword env email password of
        Rejects \<Rightarrow> None
      | Resolves auth \<Rightarrow> (if authError auth = None then authData_user auth else None))"

definition fetched_profile :: "auth_env \<Rightarrow> auth_user \<Rightarrow> user option" where
  "fetched_profile env au =
     (case select_user env (au_id au) of
        Resolves (Reply (Some u) None) \<Rightarrow> Some u
      | _ \<Rightarrow> None)"

definition created_profile :: "auth_env \<Rightarrow> auth_user \<Rightarrow> user option" where
  "created_profile env au =
     (case select_user env (au_id au) of
        Rejects \<Rightarrow> None
      | Resolves _ \<Rightarrow>
          (case insert_user env \<lparr>nu_id = au_id au, nu_email = au_email au, nu_role = ''viewer''\<rparr> of
             Resolves (Reply (Some u) None) \<Rightarrow> Some u
           | _ \<Rightarrow> None))"

definition profile :: "auth_env \<Rightarrow> string \<Rightarrow> string \<Rightarrow> user option" where
  "profile env email password =
     (case authenticated env email password of
        None \<Rightarrow> None
      | Some au \<Rightarrow>
          (case fetched_profile env au of
             Some u \<Rightarrow> Some u
           | None \<Rightarrow> created_profile env au))"

section \<open>The engine of the specification\<close>

text \<open>
  Modelled from the spec: the Containment Tracker of section 4.4. No file of the sources
  computes a distance or a containment; the hysteresis step below follows the
  specification's sentences. The great-circle distance is an input of the step, and the
  margin is the ping's accuracy capped at the configured maximum.
\<close>

datatype alert_kind = geofence_enter | geofence_exit | device_offline | low_battery

definition margin_of :: "real \<Rightarrow> real \<Rightarrow> real" where
  "margin_of max_margin accuracy = min accuracy max_margin"

definition evaluate :: "real \<Rightarrow> real \<Rightarrow> real \<Rightarrow> bool \<Rightarrow> bool \<times> alert_kind option" where
  "evaluate distance radiusMeters margin inside =
     (if \<not> inside \<and> distance < radiusMeters - margin then (True, Some geofence_enter)
      else if inside \<and> distance > radiusMeters + margin then (False, Some geofence_exit)
      else (inside, None))"

text \<open>
  Modelled from the spec: one evaluation per accepted ping against one geofence. A ping is
  its distance from the centre and its accuracy; the alerts requested are collected in
  order.
\<close>

fun track :: "real \<Rightarrow> real \<Rightarrow> (real \<times> real) list \<Rightarrow> bool \<Rightarrow> bool \<times> alert_kind list" where
  "track radiusMeters max_margin [] inside = (inside, [])"
| "track radiusMeters max_margin ((distance, accuracy) # pings) inside =
     (case evaluate distance radiusMeters (margin_of max_margin accuracy) inside of
        (inside', req) \<Rightarrow>
          (case track radiusMeters max_margin pings inside' of
             (final, requests) \<Rightarrow>
               (final, (case req of None \<Rightarrow> [] | Some k \<Rightarrow> [k]) @ requests)))"

definition in_dead_band :: "real \<Rightarrow> real \<Rightarrow> real \<times> real \<Rightarrow> bool" where
  "in_dead_band radiusMeters max_margin ping =
     (case ping of (distance, accuracy) \<Rightarrow>
        radiusMeters - margin_of max_margin accuracy \<le> distance
        \<and> distance \<le> radiusMeters + margin_of max_margin accuracy)"










section \<open>Properties of the alert tables\<close>

text \<open>
  \<open>same_but_read a a'\<close>: the row \<open>a'\<close> is the row \<open>a\<close> up to the read flag.
  \<open>marks_read target old new\<close>: position by position, \<open>new\<close> is \<open>old\<close> with the flag set
  on the rows that \<open>target\<close> selects and the other rows as they were.
  \<open>owned_ids b u\<close>: the device ids of the rows of \<open>devices\<close> whose \<open>client_id\<close> is the user.
\<close>

definition same_but_read :: "'a alert_scheme \<Rightarrow> 'a alert_scheme \<Rightarrow> bool" where
  "same_but_read a a' = (a'\<lparr>al_is_read := al_is_read a\<rparr> = a)"

definition marks_read ::
  "('a alert_scheme \<Rightarrow> bool) \<Rightarrow> 'a alert_scheme list \<Rightarrow> 'a alert_scheme list \<Rightarrow> bool" where
  "marks_read target old new =
     list_all2 (\<lambda>a a'. same_but_read a a' \<and> (if target a then al_is_read a' else a' = a)) old new"

definition owned_ids :: "backend \<Rightarrow> user \<Rightarrow> string list" where
  "owned_ids b u = map dev_device_id (filter (\<lambda>d. dev_client_id d = Some (u_id u)) (devices_tbl b))"

section \<open>A small fleet\<close>

text \<open>Two clients, of which only the first has a device; a third party's van; an active
  and an inactive geofence; one unread alert for each device.\<close>

definition client_a :: user where
  "client_a = \<lparr>u_id = ''ua'', u_email = ''a@demo.com'', u_role = ''client''\<rparr>"

definition client_b :: user where
  "client_b = \<lparr>u_id = ''ub'', u_email = ''b@demo.com'', u_role = ''client''\<rparr>"

definition truck :: device where
  "truck = \<lparr>dev_id = ''1'', dev_device_id = ''truck'', dev_phone_number = ''555-0101'',
     dev_device_type = ''android'', dev_is_online = True, dev_battery_level = 90,
     dev_last_seen = 1, dev_client_id = Some ''ua''\<rparr>"

definition van :: device where
  "van = \<lparr>dev_id = ''2'', dev_device_id = ''van'', dev_phone_number = ''555-0102'',
     dev_device_type = ''ios'', dev_is_online = False, dev_battery_level = 40,
     dev_last_seen = 1, dev_client_id = Some ''uc''\<rparr>"

definition depot :: geofence where
  "depot = \<lparr>gf_id = ''g1'', gf_name = ''Depot'', gf_type = ''Garage'', gf_latitude = 40,
     gf_longitude = -74, gf_radius = 100, gf_is_active = True\<rparr>"

definition yard :: geofence where
  "yard = \<lparr>gf_id = ''g2'', gf_name = ''Yard'', gf_type = ''hot_zone'', gf_latitude = 41,
     gf_longitude = -73, gf_radius = 250, gf_is_active = False\<rparr>"

definition truck_alert :: alert where
  "truck_alert = \<lparr>al_id = ''a1'', al_device_id = ''truck'', al_geofence_id = ''g1'',
     al_type = ''geofence_violation'', al_message = ''Truck left Depot'', al_is_read = False,
     al_created_at = 10\<rparr>"

definition van_alert :: alert where
  "van_alert = \<lparr>al_id = ''a2'', al_device_id = ''van'', al_geofence_id = ''g1'',
     al_type = ''low_battery'', al_message = ''Van battery low'', al_is_read = False,
     al_created_at = 20\<rparr>"

definition demo_backend :: backend where
  "demo_backend = \<lparr>devices_tbl = [truck, van], location_tbl = [], geofences_tbl = [depot, yard],
     alerts_tbl = [truck_alert, van_alert], down = (\<lambda>t. False)\<rparr>"

definition empty_panel :: alerts_panel where
  "empty_panel = \<lparr>alerts = [], isLoading = True, panel_toasts = []\<rparr>"


text \<open>Two pings of the truck in timestamp order at different places, a ping that is out
  of range in every field, and an environment in which the map library loads.\<close>

definition ping1 :: location_data where
  "ping1 = \<lparr>loc_id = 1, loc_device_id = ''truck'', loc_latitude = 40, loc_longitude = -74,
     loc_accuracy = 5, loc_timestamp = 1, loc_battery_level = 90, loc_device_type = ''android''\<rparr>"

definition ping2 :: location_data where
  "ping2 = \<lparr>loc_id = 2, loc_device_id = ''truck'', loc_latitude = 41, loc_longitude = -73,
     loc_accuracy = 5, loc_timestamp = 2, loc_battery_level = 89, loc_device_type = ''android''\<rparr>"


definition demo_env :: map_env where
  "demo_env = \<lparr>apiKey = Some ''key'', loader_error = None, env_user = Some client_a,
     env_backend = demo_backend\<rparr>"

text \<open>An auth service that knows the account while the \<open>users\<close> table has no row for
  it yet, and one that cannot be reached.\<close>

definition new_account :: auth_env where
  "new_account =
     \<lparr>signInWithPassword =
        (\<lambda>email password.
           Resolves \<lparr>authData_user = Some \<lparr>au_id = ''ud'', au_email = email\<rparr>, authError = None\<rparr>),
      select_user = (\<lambda>i. Resolves (Reply None (Some ''PGRST116''))),
      insert_user =
        (\<lambda>n. Resolves (Reply (Some \<lparr>u_id = nu_id n, u_email = nu_email n, u_role = nu_role n\<rparr>) None))\<rparr>"

definition offline :: auth_env where
  "offline =
     \<lparr>signInWithPassword = (\<lambda>email password. Rejects),
      select_user = (\<lambda>i. Rejects),
      insert_user = (\<lambda>n. Rejects)\<rparr>"





section \<open>Active geofences\<close>

lemma fold_addCircle_keys:
  "fst ` set (fold (addCircle (Some c)) gs cs) = fst ` set cs \<union> gf_id ` set gs"
proof (induction gs arbitrary: cs)
  case Nil
  show ?case by simp
next
  case (Cons g gs)
  have "fst ` set (addCircle (Some c) g cs) = insert (gf_id g) (fst ` set cs)"
    by (simp add: addCircle_def AList.dom_update)
  with Cons show ?case by auto
qed

text \<open>
  C6: when the read succeeds, the geofences \<open>MapView.loadGeofences\<close> keeps for display are
  exactly the rows of the table with \<open>is_active = true\<close>, in table order; a row whose flag
  is false is not among them, and with a map the circles drawn are those of the active
  rows' ids.
\<close>

theorem loadGeofences_active_only:
  assumes "\<not> down b Geofences"
  shows "geofences (loadGeofences b st) = filter gf_is_active (geofences_tbl b)
       \<and> set (geofences (loadGeofences b st)) = {g \<in> set (geofences_tbl b). gf_is_active g}
       \<and> (mapInstance st \<noteq> None \<longrightarrow>
            fst ` set (geofenceCircles (loadGeofences b st))
              = gf_id ` {g \<in> set (geofences_tbl b). gf_is_active g})"
proof -
  have g: "geofences (loadGeofences b st) = filter gf_is_active (geofences_tbl b)"
    using assms by (simp add: loadGeofences_def request_def or_empty_def)
  have c: "fst ` set (geofenceCircles (loadGeofences b st))
             = gf_id ` {g \<in> set (geofences_tbl b). gf_is_active g}"
    if "mapInstance st = Some m" for m
    using assms that fold_addCircle_keys [of m "filter gf_is_active (geofences_tbl b)" "[]"]
    by (simp add: loadGeofences_def request_def or_empty_def)
  from g c show ?thesis by auto
qed

theorem loadGeofences_active_only_witness:
  "\<not> down demo_backend Geofences
   \<and> geofences (loadGeofences demo_backend empty_view) = [depot]
   \<and> yard \<notin> set (geofences (loadGeofences demo_backend empty_view))"
proof -
  have h: "\<not> down demo_backend Geofences"
    by (simp add: demo_backend_def)
  have "geofences (loadGeofences demo_backend empty_view)
          = filter gf_is_active (geofences_tbl demo_backend)"
    using loadGeofences_active_only [OF h, of empty_view] by blast
  also have "\<dots> = [depot]"
    by (simp add: demo_backend_def depot_def yard_def)
  finally have g: "geofences (loadGeofences demo_backend empty_view) = [depot]" .
  have "yard \<noteq> depot"
    by (simp add: depot_def yard_def)
  with h g show ?thesis by simp
qed

section \<open>The read flag\<close>

lemma marks_read_map:
  "marks_read target old (map (\<lambda>a. if target a then a\<lparr>al_is_read := True\<rparr> else a) old)"
  by (induction old) (simp_all add: marks_read_def same_but_read_def)

lemma same_but_read_all:
  "list_all2 same_but_read old (map (\<lambda>a. if p a then a\<lparr>al_is_read := True\<rparr> else a) old)"
  by (induction old) (simp_all add: same_but_read_def)

lemma same_but_read_all':
  "list_all2 same_but_read old (map (\<lambda>a. a\<lparr>al_is_read := True\<rparr>) old)"
  by (induction old) (simp_all add: same_but_read_def)

text \<open>
  C8: the only field of an alert the components change is \<open>is_read\<close>. When the request
  succeeds, \<open>markAsRead alertId\<close> sets the flag on the rows with that id, in the table and
  in the panel's list, and leaves every other field of those rows and every other row as
  it was; when it fails nothing changes; the other tables are never touched; and
  \<open>markAllAsRead\<close> too changes no field but the flag.
\<close>

theorem markAsRead_only_read_flag:
  "(\<not> down b Alerts \<longrightarrow>
      marks_read (\<lambda>a. al_id a = alertId) (alerts_tbl b) (alerts_tbl (fst (markAsRead alertId (b, st))))
    \<and> marks_read (\<lambda>a. al_id a = alertId) (alerts st) (alerts (snd (markAsRead alertId (b, st)))))
   \<and> (down b Alerts \<longrightarrow>
        fst (markAsRead alertId (b, st)) = b \<and> alerts (snd (markAsRead alertId (b, st))) = alerts st)
   \<and> devices_tbl (fst (markAsRead alertId (b, st))) = devices_tbl b
   \<and> geofences_tbl (fst (markAsRead alertId (b, st))) = geofences_tbl b
   \<and> location_tbl (fst (markAsRead alertId (b, st))) = location_tbl b
   \<and> list_all2 same_but_read (alerts_tbl b) (alerts_tbl (fst (markAllAsRead usr (b, st))))
   \<and> list_all2 same_but_read (alerts st) (alerts (snd (markAllAsRead usr (b, st))))"
proof -
  have ok: "markAsRead alertId (b, st) =
      (b\<lparr>alerts_tbl := map (\<lambda>a. if al_id a = alertId then a\<lparr>al_is_read := True\<rparr> else a) (alerts_tbl b)\<rparr>,
       st\<lparr>alerts := map (\<lambda>a. if al_id a = alertId then a\<lparr>al_is_read := True\<rparr> else a) (alerts st)\<rparr>)"
    if "\<not> down b Alerts"
    using that by (simp add: markAsRead_def update_is_read_def)
  have ko: "markAsRead alertId (b, st) =
      (b, st\<lparr>panel_toasts := panel_toasts st @ [''Failed to update alert'']\<rparr>)"
    if "down b Alerts"
    using that by (simp add: markAsRead_def update_is_read_def)
  have all: "list_all2 same_but_read (alerts_tbl b) (alerts_tbl (fst (markAllAsRead usr (b, st))))"
    by (cases "down b Alerts")
      (simp_all add: markAllAsRead_def update_is_read_def same_but_read_all
        list_all2_refl same_but_read_def)
  have all': "list_all2 same_but_read (alerts st) (alerts (snd (markAllAsRead usr (b, st))))"
    by (cases "down b Alerts")
      (simp_all add: markAllAsRead_def update_is_read_def same_but_read_all'
        list_all2_refl same_but_read_def)
  show ?thesis
    using all all' by (cases "down b Alerts") (simp_all add: ok ko marks_read_map)
qed

theorem markAsRead_only_read_flag_witness:
  "\<not> down demo_backend Alerts
   \<and> alerts_tbl (fst (markAsRead ''a1'' (demo_backend, empty_panel)))
       = [truck_alert\<lparr>al_is_read := True\<rparr>, van_alert]"
proof -
  have h: "\<not> down demo_backend Alerts"
    by (simp add: demo_backend_def)
  have "marks_read (\<lambda>a. al_id a = ''a1'') (alerts_tbl demo_backend)
          (alerts_tbl (fst (markAsRead ''a1'' (demo_backend, empty_panel))))"
    using markAsRead_only_read_flag [of demo_backend "''a1''" empty_panel] h by blast
  then obtain x y where xy: "alerts_tbl (fst (markAsRead ''a1'' (demo_backend, empty_panel))) = [x, y]"
    and x: "same_but_read truck_alert x" "al_is_read x"
    and y: "y = van_alert"
    by (auto simp: marks_read_def demo_backend_def list_all2_Cons1 truck_alert_def van_alert_def)
  from x have "x = truck_alert\<lparr>al_is_read := True\<rparr>"
    by (cases x) (auto simp: same_but_read_def truck_alert_def)
  with xy y h show ?thesis by simp
qed

text \<open>
  C9: for a client-role user, \<open>markAllAsRead\<close> narrows the update to the client's devices
  only when the device query returned at least one id. A client with no device (or whose
  device query failed) marks every alert of the table read, whatever its device; a client
  with a device marks exactly the alerts of its own devices.
\<close>

theorem markAllAsRead_client_filter:
  assumes "u_role u = ''client''" and "\<not> down b Alerts"
  shows "(owned_ids b u = [] \<or> down b Devices \<longrightarrow>
            alerts_tbl (fst (markAllAsRead (Some u) (b, st)))
              = map (\<lambda>a. a\<lparr>al_is_read := True\<rparr>) (alerts_tbl b))
       \<and> (owned_ids b u \<noteq> [] \<and> \<not> down b Devices \<longrightarrow>
            alerts_tbl (fst (markAllAsRead (Some u) (b, st)))
              = map (\<lambda>a. if al_device_id a \<in> set (owned_ids b u) then a\<lparr>al_is_read := True\<rparr> else a)
                  (alerts_tbl b))"
proof -
  have r: "(if al_is_read a = False then a\<lparr>al_is_read := True\<rparr> else a) = a\<lparr>al_is_read := True\<rparr>"
    for a :: alert
    by simp
  have r': "(if al_is_read a = False \<and> P then a\<lparr>al_is_read := True\<rparr> else a)
              = (if P then a\<lparr>al_is_read := True\<rparr> else a)"
    for a :: alert and P
    by simp
  show ?thesis
    using assms
    by (simp add: markAllAsRead_def update_is_read_def mark_all_filter_def userDevices_def
        request_def owned_ids_def r r' del: split_paired_All)
qed

theorem markAllAsRead_client_filter_witness:
  "u_role client_b = ''client'' \<and> \<not> down demo_backend Alerts
   \<and> owned_ids demo_backend client_b = []
   \<and> alerts_tbl (fst (markAllAsRead (Some client_b) (demo_backend, empty_panel)))
       = [truck_alert\<lparr>al_is_read := True\<rparr>, van_alert\<lparr>al_is_read := True\<rparr>]
   \<and> u_role client_a = ''client'' \<and> owned_ids demo_backend client_a = [''truck'']
   \<and> \<not> down demo_backend Devices
   \<and> alerts_tbl (fst (markAllAsRead (Some client_a) (demo_backend, empty_panel)))
       = [truck_alert\<lparr>al_is_read := True\<rparr>, van_alert]"
proof -
  have b: "u_role client_b = ''client''" and a: "u_role client_a = ''client''"
    by (simp_all add: client_a_def client_b_def)
  have up: "\<not> down demo_backend Alerts" "\<not> down demo_backend Devices"
    by (simp_all add: demo_backend_def)
  have none: "owned_ids demo_backend client_b = []"
    by (simp add: owned_ids_def demo_backend_def client_b_def truck_def van_def)
  have one: "owned_ids demo_backend client_a = [''truck'']"
    by (simp add: owned_ids_def demo_backend_def client_a_def truck_def van_def)
  have "alerts_tbl (fst (markAllAsRead (Some client_b) (demo_backend, empty_panel)))
          = map (\<lambda>a. a\<lparr>al_is_read := True\<rparr>) (alerts_tbl demo_backend)"
    using markAllAsRead_client_filter [OF b up(1), of empty_panel] none by blast
  also have "\<dots> = [truck_alert\<lparr>al_is_read := True\<rparr>, van_alert\<lparr>al_is_read := True\<rparr>]"
    by (simp add: demo_backend_def)
  finally have all: "alerts_tbl (fst (markAllAsRead (Some client_b) (demo_backend, empty_panel)))
          = [truck_alert\<lparr>al_is_read := True\<rparr>, van_alert\<lparr>al_is_read := True\<rparr>]" .
  have "alerts_tbl (fst (markAllAsRead (Some client_a) (demo_backend, empty_panel)))
          = map (\<lambda>a. if al_device_id a \<in> set (owned_ids demo_backend client_a)
                      then a\<lparr>al_is_read := True\<rparr> else a) (alerts_tbl demo_backend)"
    using markAllAsRead_client_filter [OF a up(1), of empty_panel] one up(2) by simp
  also have "\<dots> = [truck_alert\<lparr>al_is_read := True\<rparr>, van_alert]"
    unfolding one by (simp add: demo_backend_def truck_alert_def van_alert_def)
  finally have own: "alerts_tbl (fst (markAllAsRead (Some client_a) (demo_backend, empty_panel)))
          = [truck_alert\<lparr>al_is_read := True\<rparr>, van_alert]" .
  from a b up none one all own show ?thesis by simp
qed

section \<open>Pings on the map\<close>

lemma find_device_id:
  "find (\<lambda>d. dev_device_id d = k) ds = Some d \<Longrightarrow> dev_device_id d = k"
  by (induction ds) (auto split: if_splits)


lemma updateDeviceLocation_markers:
  assumes "mapInstance st = Some c"
    and "find (\<lambda>d. dev_device_id d = loc_device_id l) (devices st) = Some d"
  shows "markers (updateDeviceLocation l st)
           = AList.update (loc_device_id l) (make_marker d l) (markers st)"
  using assms find_device_id [OF assms(2)] by (simp add: updateDeviceLocation_def Let_def)

lemma updateDeviceLocation_frame:
  "devices (updateDeviceLocation l st) = devices st"
  "geofences (updateDeviceLocation l st) = geofences st"
  "geofenceCircles (updateDeviceLocation l st) = geofenceCircles st"
  "toasts (updateDeviceLocation l st) = toasts st"
  "(mapInstance (updateDeviceLocation l st) = None) = (mapInstance st = None)"
  by (simp_all add: updateDeviceLocation_def Let_def split: option.splits)

lemma updateDeviceLocation_marker:
  assumes "mapInstance st = Some c"
    and "find (\<lambda>d. dev_device_id d = loc_device_id l) (devices st) = Some d"
  shows "map_of (markers (updateDeviceLocation l st)) (loc_device_id l) = Some (make_marker d l)"
    and "k \<noteq> loc_device_id l \<Longrightarrow>
           map_of (markers (updateDeviceLocation l st)) k = map_of (markers st) k"
  by (simp_all add: updateDeviceLocation_markers [OF assms] update_conv')








text \<open>
  C4: the truck is a device of the backend and its two pings arrive in timestamp order,
  or in the other order; in both cases the mounted component ends without a map and
  without a marker for the truck, so that no position is recorded, the later ping's
  neither. With a map and the device in sight, \<open>updateDeviceLocation\<close> would have placed
  the marker (lemma \<open>updateDeviceLocation_marker\<close>).
\<close>

theorem pings_leave_no_marker:
  "truck \<in> set (devices_tbl (env_backend demo_env))
   \<and> dev_device_id truck = loc_device_id ping1
   \<and> loc_device_id ping1 = loc_device_id ping2
   \<and> loc_timestamp ping1 < loc_timestamp ping2
   \<and> map_of (markers (view (run demo_env [LocationInsert ping1, LocationInsert ping2])))
        (loc_device_id ping2) = None
   \<and> map_of (markers (view (run demo_env [LocationInsert ping2, LocationInsert ping1])))
        (loc_device_id ping2) = None
   \<and> mapInstance (view (run demo_env [LocationInsert ping1, LocationInsert ping2])) = None
   \<and> mv_isLoading (run demo_env [LocationInsert ping1, LocationInsert ping2])"
  by (simp add: run_def initializeMap_def mapRef_current_def first_render_def
      on_location_insert_def updateDeviceLocation_def empty_view_def
      demo_env_def demo_backend_def truck_def ping1_def ping2_def)

section \<open>Signing in\<close>

text \<open>
  C10: \<open>signIn\<close> never throws; it always returns a value. That value carries no error
  exactly when a profile row was fetched or, failing that, created, and then this row is
  the stored user; in every other case (rejected or failed authentication, no authenticated
  user, a profile that can neither be fetched nor created, any rejected call) it carries
  an error and the stored user is left as it was.
\<close>

theorem signIn_never_throws:
  "(\<exists>r. fst (signIn env email password usr) = Returns r
         \<and> (result_error r = None) = (profile env email password \<noteq> None))
   \<and> snd (signIn env email password usr)
       = (case profile env email password of None \<Rightarrow> usr | Some u \<Rightarrow> Some u)"
proof (cases "signInWithPassword env email password")
  case Rejects
  then show ?thesis
    by (simp add: signIn_def signIn_try_def profile_def authenticated_def)
next
  case (Resolves auth)
  show ?thesis
  proof (cases "authenticated env email password")
    case None
    with Resolves show ?thesis
      by (auto simp: signIn_def signIn_try_def profile_def authenticated_def
          split: option.splits if_splits)
  next
    case (Some au)
    with Resolves have a: "authError auth = None" "authData_user auth = Some au"
      by (auto simp: authenticated_def split: if_splits)
    show ?thesis
    proof (cases "select_user env (au_id au)")
      case Rejects
      with Resolves Some a show ?thesis
        by (simp add: signIn_def signIn_try_def profile_def fetched_profile_def
            created_profile_def)
    next
      case sel: (Resolves rep)
      obtain userData userError where rep: "rep = Reply userData userError"
        by (cases rep)
      show ?thesis
      proof (cases "userError \<noteq> None \<or> userData = None")
        case False
        with Resolves Some a sel rep show ?thesis
          by (auto simp: signIn_def signIn_try_def profile_def fetched_profile_def)
      next
        case True
        then have f: "fetched_profile env au = None"
          using sel rep by (auto simp: fetched_profile_def split: option.splits)
        show ?thesis
        proof (cases "insert_user env \<lparr>nu_id = au_id au, nu_email = au_email au, nu_role = ''viewer''\<rparr>")
          case Rejects
          with Resolves Some a sel rep True f show ?thesis
            by (auto simp: signIn_def signIn_try_def profile_def created_profile_def)
        next
          case ins: (Resolves rep')
          obtain newUserData insertError where rep': "rep' = Reply newUserData insertError"
            by (cases rep')
          from Resolves Some a sel rep True f ins rep' show ?thesis
            by (auto simp: signIn_def signIn_try_def profile_def created_profile_def
                split: option.splits)
        qed
      qed
    qed
  qed
qed

theorem signIn_never_throws_witness:
  "profile new_account ''d@demo.com'' ''secret''
     = Some \<lparr>u_id = ''ud'', u_email = ''d@demo.com'', u_role = ''viewer''\<rparr>
   \<and> signIn new_account ''d@demo.com'' ''secret'' None
     = (Returns \<lparr>result_error = None\<rparr>,
        Some \<lparr>u_id = ''ud'', u_email = ''d@demo.com'', u_role = ''viewer''\<rparr>)
   \<and> profile offline ''d@demo.com'' ''secret'' = None
   \<and> snd (signIn offline ''d@demo.com'' ''secret'' (Some client_a)) = Some client_a"
proof -
  have p: "profile new_account ''d@demo.com'' ''secret''
             = Some \<lparr>u_id = ''ud'', u_email = ''d@demo.com'', u_role = ''viewer''\<rparr>"
    by (simp add: profile_def authenticated_def fetched_profile_def created_profile_def
        new_account_def)
  have q: "profile offline ''d@demo.com'' ''secret'' = None"
    by (simp add: profile_def authenticated_def offline_def)
  obtain r where r: "fst (signIn new_account ''d@demo.com'' ''secret'' None) = Returns r"
      "(result_error r = None) = (profile new_account ''d@demo.com'' ''secret'' \<noteq> None)"
    and s: "snd (signIn new_account ''d@demo.com'' ''secret'' None)
      = (case profile new_account ''d@demo.com'' ''secret'' of None \<Rightarrow> None | Some u \<Rightarrow> Some u)"
    using signIn_never_throws [of new_account "''d@demo.com''" "''secret''" None]
    by (elim conjE exE)
  from r(2) p have "r = \<lparr>result_error = None\<rparr>"
    by (cases r) simp
  with r(1) s p have ok: "signIn new_account ''d@demo.com'' ''secret'' None
     = (Returns \<lparr>result_error = None\<rparr>,
        Some \<lparr>u_id = ''ud'', u_email = ''d@demo.com'', u_role = ''viewer''\<rparr>)"
    by (simp add: prod_eq_iff)
  have "snd (signIn offline ''d@demo.com'' ''secret'' (Some client_a)) = Some client_a"
    using signIn_never_throws [of offline "''d@demo.com''" "''secret''" "Some client_a"] q
    by simp
  with p q ok show ?thesis by simp
qed

section \<open>What a client is shown\<close>

lemma enrich_device_id: "al_device_id (enrich b a) = al_device_id a"
  by (simp add: enrich_def Let_def alert.defs)

lemma fetch_alerts_kept:
  assumes "a \<in> set (alerts (fetch_alerts b keep st))"
  shows "a \<in> set (alerts st) \<or> (\<exists>row \<in> set (alerts_tbl b). keep row \<and> al_device_id a = al_device_id row)"
  using assms
  by (auto simp: fetch_alerts_def request_def or_empty_def order_created_desc_def enrich_device_id
      split: if_splits)

lemma loadAlerts_client_owned:
  assumes "u_role u = ''client''" and "a \<in> set (alerts (loadAlerts (Some u) b st))"
  shows "a \<in> set (alerts st) \<or> al_device_id a \<in> set (owned_ids b u)"
proof (cases "userDevices b u")
  case None
  with assms show ?thesis by (simp add: loadAlerts_def)
next
  case (Some deviceIds)
  then have ids: "deviceIds = owned_ids b u"
    by (auto simp: userDevices_def request_def owned_ids_def split: if_splits)
  show ?thesis
  proof (cases "length deviceIds > 0")
    case True
    with assms Some have "a \<in> set (alerts (fetch_alerts b (\<lambda>a. al_device_id a \<in> set deviceIds) st))"
      by (simp add: loadAlerts_def)
    from fetch_alerts_kept [OF this] ids show ?thesis by auto
  next
    case False
    with assms Some show ?thesis by (simp add: loadAlerts_def)
  qed
qed

lemma fold_load_location_devices: "devices (fold (load_location b) ds st) = devices st"
  by (induction ds arbitrary: st)
    (simp_all add: load_location_def updateDeviceLocation_frame split: option.splits list.splits)

lemma loadDevicesAndLocations_client_owned:
  assumes "u_role u = ''client''" and "d \<in> set (devices (loadDevicesAndLocations (Some u) b st))"
  shows "d \<in> set (devices st) \<or> (d \<in> set (devices_tbl b) \<and> dev_client_id d = Some (u_id u))"
  using assms
  by (auto simp: loadDevicesAndLocations_def devicesQuery_def request_def or_empty_def
      fold_load_location_devices split: if_splits)

lemma loadDevices_owned:
  assumes "d \<in> set (loadDevices (Some u) b devs)"
  shows "d \<in> set devs \<or> (d \<in> set (devices_tbl b) \<and> dev_client_id d = Some (u_id u))"
  using assms
  by (auto simp: loadDevices_def request_def or_empty_def split: if_splits)

lemma updateDeviceLocation_known_devices:
  "fst ` set (markers (updateDeviceLocation l st))
     \<subseteq> fst ` set (markers st) \<union> dev_device_id ` set (devices st)"
proof (cases "mapInstance st")
  case None
  then show ?thesis by (simp add: updateDeviceLocation_def)
next
  case (Some c)
  show ?thesis
  proof (cases "find (\<lambda>d. dev_device_id d = loc_device_id l) (devices st)")
    case None
    with Some show ?thesis by (simp add: updateDeviceLocation_def)
  next
    case found: (Some d)
    then have "d \<in> set (devices st)"
      by (auto simp: find_Some_iff)
    with Some found show ?thesis
      by (auto simp: updateDeviceLocation_def Let_def AList.dom_update)
  qed
qed

text \<open>
  C2: the lists a client-role user is shown are narrowed to the client's devices (the four
  lemmas above), but the handler of the \<open>alerts_updates\<close> channel is not: for a client who
  owns only the truck, the inserted alert of another client's van is shown as a toast,
  while the reloaded list holds the truck's alert only.
\<close>

theorem on_alert_insert_toasts_foreign_alert:
  "u_role client_a = ''client''
   \<and> al_device_id van_alert \<notin> set (owned_ids demo_backend client_a)
   \<and> panel_toasts (on_alert_insert (Some client_a) demo_backend van_alert empty_panel)
       = [''New Alert: Van battery low'']
   \<and> map al_device_id (alerts (on_alert_insert (Some client_a) demo_backend van_alert empty_panel))
       = [''truck'']"
  by (simp add: on_alert_insert_def loadAlerts_def userDevices_def request_def fetch_alerts_def
      or_empty_def order_created_desc_def enrich_device_id owned_ids_def
      client_a_def demo_backend_def truck_def van_def truck_alert_def van_alert_def empty_panel_def)

section \<open>Hysteresis\<close>

lemma evaluate_dead_band:
  "radiusMeters - margin \<le> distance \<Longrightarrow> distance \<le> radiusMeters + margin
     \<Longrightarrow> evaluate distance radiusMeters margin inside = (inside, None)"
  by (simp add: evaluate_def)

lemma track_dead_band:
  "list_all (in_dead_band radiusMeters max_margin) pings
     \<Longrightarrow> track radiusMeters max_margin pings inside = (inside, [])"
proof (induction pings)
  case Nil
  show ?case by simp
next
  case (Cons ping pings)
  obtain distance accuracy where ping: "ping = (distance, accuracy)"
    by (cases ping)
  from Cons.prems have "evaluate distance radiusMeters (margin_of max_margin accuracy) inside
      = (inside, None)"
    by (simp add: ping in_dead_band_def evaluate_dead_band)
  moreover from Cons have "track radiusMeters max_margin pings inside = (inside, [])"
    by simp
  ultimately show ?case
    by (simp add: ping)
qed

text \<open>
  C1: one evaluation turns \<open>inside\<close> to true only when the distance is below the radius
  minus the margin, to false only when it is above the radius plus the margin, and in the
  dead band between leaves the state as it was and requests no alert; an alert is requested
  exactly when the state changes. Hence any sequence of pings that each lie within their
  own dead band leaves the state unchanged and requests no alert at all.
\<close>

theorem hysteresis_dead_band:
  "(\<not> inside \<and> fst (evaluate distance radiusMeters margin inside)
      \<longrightarrow> distance < radiusMeters - margin)
   \<and> (inside \<and> \<not> fst (evaluate distance radiusMeters margin inside)
      \<longrightarrow> distance > radiusMeters + margin)
   \<and> (radiusMeters - margin \<le> distance \<and> distance \<le> radiusMeters + margin
      \<longrightarrow> evaluate distance radiusMeters margin inside = (inside, None))
   \<and> (snd (evaluate distance radiusMeters margin inside) = None)
       = (fst (evaluate distance radiusMeters margin inside) = inside)
   \<and> (list_all (in_dead_band radiusMeters max_margin) pings
      \<longrightarrow> track radiusMeters max_margin pings inside = (inside, []))"
  using track_dead_band [of radiusMeters max_margin pings inside]
  by (auto simp: evaluate_def split: if_splits)

theorem hysteresis_dead_band_witness:
  "list_all (in_dead_band 100 50) [(98, 5), (103, 5), (96, 5), (105, 5), (95, 5)]
   \<and> track 100 50 [(98, 5), (103, 5), (96, 5), (105, 5), (95, 5)] True = (True, [])
   \<and> track 100 50 [(98, 5), (103, 5), (96, 5), (105, 5), (95, 5)] False = (False, [])
   \<and> evaluate 150 100 5 True = (False, Some geofence_exit)
   \<and> evaluate 50 100 5 False = (True, Some geofence_enter)"
proof -
  have band: "list_all (in_dead_band 100 50) [(98, 5), (103, 5), (96, 5), (105, 5), (95, 5)]"
    by (simp add: in_dead_band_def margin_of_def)
  have "track 100 50 [(98, 5), (103, 5), (96, 5), (105, 5), (95, 5)] inside = (inside, [])"
    for inside
    using hysteresis_dead_band [of inside 0 100 0 50 "[(98, 5), (103, 5), (96, 5), (105, 5), (95, 5)]"]
      band by blast
  moreover have "evaluate 150 100 5 True = (False, Some geofence_exit)"
    "evaluate 50 100 5 False = (True, Some geofence_enter)"
    by (simp_all add: evaluate_def)
  ultimately show ?thesis
    using band by simp
qed

section \<open>Cool-down\<close>










end
